theory Spec2Isabelle
  imports Complex_Main
begin

section \<open>Quantum memory cell: data model\<close>

text \<open>
  The development embeds \<^verbatim>\<open>src/quantum_memory_cell.py\<close>. Tensor entries are modelled
  as real numbers with exact arithmetic; Python integers are \<open>int\<close>; sizes that the
  source passes to \<^verbatim>\<open>range\<close> and \<^verbatim>\<open>torch.zeros\<close> are \<open>nat\<close>.
\<close>

subsection \<open>Exceptions\<close>

text \<open>
  The class \<^verbatim>\<open>JobStatus\<close> of the source, whose five attributes are strings. It is defined
  at module level after the import of QuantumRingsLib, whatever that import gave, so
  inside \<^verbatim>\<open>read\<close> the name \<^verbatim>\<open>JobStatus\<close> always means this class.
\<close>

datatype JobStatus = DONE | ERROR | CANCELLED | RUNNING | QUEUED

text \<open>
  What \<^verbatim>\<open>job.status()\<close> returns: one of the five strings (\<open>Str\<close>), or a member of a
  library's own status enumeration (\<open>Lib_enum\<close>, with its name), which is not a string
  and is equal to none of the five.
\<close>

datatype status_value = Str JobStatus | Lib_enum string

text \<open>
  Every \<^verbatim>\<open>raise\<close> of the source is a constructor. \<open>External\<close> stands for an exception
  raised inside an external collaborator (Qiskit, the backend, a job, a GPU simulator);
  all of them are instances of Python's \<^verbatim>\<open>Exception\<close>.
\<close>

datatype exn =
    Qiskit_required
  | CuQuantum_not_found
  | AerSimulator_not_found
  | Unsupported_backend_mode string
  | Angles_shape
  | Batch_length_mismatch
  | Slot_out_of_bounds int nat
  | Job_timed_out nat int status_value
  | Job_failed nat int status_value
  | Job_not_done
  | Linear_shape_mismatch
  | Sleep_negative
  | Index_error
  | None_not_subscriptable
  | Cat_size_mismatch
  | Attribute_error
  | Tensor_overflow
  | External string

datatype exn_class =
  ImportError | RuntimeError | ValueError | TimeoutError | IndexError | TypeError |
  AttributeError | OtherException

fun class_of :: "exn \<Rightarrow> exn_class" where
  "class_of Qiskit_required = ImportError"
| "class_of CuQuantum_not_found = RuntimeError"
| "class_of AerSimulator_not_found = ImportError"
| "class_of (Unsupported_backend_mode m) = ValueError"
| "class_of Angles_shape = ValueError"
| "class_of Batch_length_mismatch = ValueError"
| "class_of (Slot_out_of_bounds s i) = ValueError"
| "class_of (Job_timed_out i s st) = TimeoutError"
| "class_of (Job_failed i s st) = RuntimeError"
| "class_of Job_not_done = RuntimeError"
| "class_of Linear_shape_mismatch = RuntimeError"
| "class_of Sleep_negative = ValueError"
| "class_of Index_error = IndexError"
| "class_of None_not_subscriptable = TypeError"
| "class_of Cat_size_mismatch = RuntimeError"
| "class_of Attribute_error = AttributeError"
| "class_of Tensor_overflow = RuntimeError"
| "class_of (External s) = OtherException"

subsection \<open>Tensors\<close>

text \<open>
  A two-dimensional tensor carries its shape explicitly, so that the empty tensor of
  shape \<open>(0, H)\<close> is a value of its own.
\<close>

record tensor =
  dim0 :: nat
  dim1 :: nat
  rows :: "real list list"

text \<open>\<^verbatim>\<open>torch.randn(r, c)\<close>: the samples come from a stream \<open>g\<close> of the generator.\<close>

definition torch_randn :: "(nat \<Rightarrow> real) \<Rightarrow> nat \<Rightarrow> nat \<Rightarrow> tensor" where
  "torch_randn g r c =
     \<lparr>dim0 = r, dim1 = c, rows = map (\<lambda>i. map (\<lambda>j. g (i * c + j)) [0..<c]) [0..<r]\<rparr>"

definition torch_empty :: "nat \<Rightarrow> nat \<Rightarrow> tensor" where
  "torch_empty r c = \<lparr>dim0 = r, dim1 = c, rows = replicate r (replicate c 0)\<rparr>"

text \<open>\<^verbatim>\<open>x.unsqueeze(0)\<close> of a vector.\<close>

definition unsqueeze0 :: "real list \<Rightarrow> tensor" where
  "unsqueeze0 v = \<lparr>dim0 = 1, dim1 = length v, rows = [v]\<rparr>"

text \<open>
  \<^verbatim>\<open>torch.cat(ts, dim=0)\<close>: raises on an empty list and when the second dimensions differ.
\<close>

definition torch_cat :: "tensor list \<Rightarrow> exn + tensor" where
  "torch_cat ts =
     (case ts of
        [] \<Rightarrow> Inl Cat_size_mismatch
      | t # rest \<Rightarrow>
          if list_all (\<lambda>u. dim1 u = dim1 t) rest
          then Inr \<lparr>dim0 = sum_list (map dim0 ts), dim1 = dim1 t, rows = concat (map rows ts)\<rparr>
          else Inl Cat_size_mismatch)"

text \<open>
  \<^verbatim>\<open>nn.Linear(in_features, out_features)\<close> applied to a tensor of shape \<open>(n, in_features)\<close>;
  the weight is indexed \<open>w out in\<close>. A tensor whose second dimension is not
  \<open>in_features\<close> raises.
\<close>

definition linear_row :: "nat \<Rightarrow> nat \<Rightarrow> (nat \<Rightarrow> nat \<Rightarrow> real) \<Rightarrow> (nat \<Rightarrow> real) \<Rightarrow> real list \<Rightarrow> real list" where
  "linear_row n_in n_out w b x =
     map (\<lambda>out. sum_list (map (\<lambda>k. w out k * x ! k) [0..<n_in]) + b out) [0..<n_out]"

definition nn_Linear ::
  "nat \<Rightarrow> nat \<Rightarrow> (nat \<Rightarrow> nat \<Rightarrow> real) \<Rightarrow> (nat \<Rightarrow> real) \<Rightarrow> tensor \<Rightarrow> exn + tensor" where
  "nn_Linear n_in n_out w b x =
     (if dim1 x \<noteq> n_in then Inl Linear_shape_mismatch
      else Inr \<lparr>dim0 = dim0 x, dim1 = n_out, rows = map (linear_row n_in n_out w b) (rows x)\<rparr>)"

subsection \<open>Measurement counts and per-qubit probabilities\<close>

type_synonym counts = "(string \<times> int) list"

text \<open>
  The inner loop of \<^verbatim>\<open>read\<close> over \<^verbatim>\<open>counts.items()\<close>: \<open>prob1\<close> accumulates the counts
  of the bitstrings of length \<open>num_qubits\<close> whose character at position
  \<open>num_qubits - 1 - qubit_idx\<close> is \<open>1\<close>.
\<close>

fun count_ones :: "nat \<Rightarrow> nat \<Rightarrow> counts \<Rightarrow> int \<Rightarrow> int" where
  "count_ones nq qubit_idx [] prob1 = prob1"
| "count_ones nq qubit_idx ((bitstring, count_val) # rest) prob1 =
     count_ones nq qubit_idx rest
       (if length bitstring = nq \<and> bitstring ! (nq - 1 - qubit_idx) = CHR ''1''
        then prob1 + count_val else prob1)"

text \<open>
  The block \<^verbatim>\<open># Process counts\<close>: \<^verbatim>\<open>probs\<close> starts as zeros and is filled only when
  \<^verbatim>\<open>counts\<close> is truthy (a non-empty table).
\<close>

definition process_counts :: "nat \<Rightarrow> counts \<Rightarrow> int \<Rightarrow> real list" where
  "process_counts nq cnts shots =
     (if cnts \<noteq> []
      then map (\<lambda>qubit_idx.
             if shots > 0 then real_of_int (count_ones nq qubit_idx cnts 0) / real_of_int shots
             else 0) [0..<nq]
      else replicate nq 0)"

subsection \<open>Decimal text of integers in names\<close>

text \<open>The f-strings of the source print item and slot numbers in decimal.\<close>

fun str_nat :: "nat \<Rightarrow> string" where
  "str_nat n =
     (if n < 10 then [char_of (48 + n)]
      else str_nat (n div 10) @ [char_of (48 + n mod 10)])"

definition str_int :: "int \<Rightarrow> string" where
  "str_int z = (if z < 0 then CHR ''-'' # str_nat (nat (- z)) else str_nat (nat z))"

subsection \<open>Circuits, jobs and backends\<close>

text \<open>
  A circuit is what \<^verbatim>\<open>read\<close> and \<^verbatim>\<open>write\<close> build through Qiskit's interface: a name,
  its quantum and classical registers (name and size) and the instructions appended so
  far. \<open>Gate label body qubits\<close> is the result of \<^verbatim>\<open>to_gate\<close> appended on the qubits.
\<close>

datatype instr =
    Ry real nat
  | Rz real nat
  | Gate string "instr list" "nat list"
  | Measure "nat list" "nat list"

record circuit =
  circ_name :: string
  qregs :: "(string \<times> nat) list"
  cregs :: "(string \<times> nat) list"
  data :: "instr list"

definition circ_num_qubits :: "circuit \<Rightarrow> nat" where
  "circ_num_qubits qc = sum_list (map snd (qregs qc))"

text \<open>
  A job: \<open>DummyJob\<close> is the class of the source; \<open>Lib_job status result\<close> is a job of an
  external library, given by the answer of its \<open>k\<close>-th call of \<^verbatim>\<open>status()\<close> (counted
  from 0), which is the name of a member of the library's status enumeration, and by
  what \<^verbatim>\<open>result().get_counts()\<close> gives after \<open>n\<close> calls of \<^verbatim>\<open>status()\<close>.
\<close>

datatype job =
    DummyJob circuit int
  | Lib_job "nat \<Rightarrow> exn + string" "nat \<Rightarrow> exn + counts"

text \<open>
  \<^verbatim>\<open>DummyJob.status\<close> moves \<^verbatim>\<open>QUEUED\<close> to \<^verbatim>\<open>RUNNING\<close> on the first call and \<^verbatim>\<open>RUNNING\<close> to
  \<^verbatim>\<open>DONE\<close> on the second.
\<close>

fun job_status :: "job \<Rightarrow> nat \<Rightarrow> exn + status_value" where
  "job_status (DummyJob qc shots) k = Inr (Str (if k = 0 then RUNNING else DONE))"
| "job_status (Lib_job st res) k =
     (case st k of Inl e \<Rightarrow> Inl e | Inr member \<Rightarrow> Inr (Lib_enum member))"

text \<open>
  \<^verbatim>\<open>DummyJob.result\<close> raises unless the status is \<^verbatim>\<open>DONE\<close>, that is unless \<^verbatim>\<open>status()\<close>
  has been called twice; its counts are \<^verbatim>\<open>{'0'*num_q: shots}\<close>.
\<close>

fun job_result_counts :: "job \<Rightarrow> nat \<Rightarrow> exn + counts" where
  "job_result_counts (DummyJob qc shots) n =
     (if n < 2 then Inl Job_not_done
      else Inr [(replicate (circ_num_qubits qc) CHR ''0'', shots)])"
| "job_result_counts (Lib_job st res) n = res n"

text \<open>
  A backend handle: the dummy \<^verbatim>\<open>BackendV2\<close> of the source, or a backend of an external
  library (Qiskit Aer, QuantumRingsLib) known by its name.
\<close>

datatype backend = Dummy_BackendV2 nat | Lib_backend string

text \<open>
  A GPU simulator (\<^verbatim>\<open>CuQuantumSimulator\<close> is imported from a module that is not among the
  sources): the rotations applied since its state was last reset, and its \<^verbatim>\<open>release\<close>
  attribute: \<open>None\<close> when there is no callable \<^verbatim>\<open>release\<close>, otherwise what calling it does.
\<close>

record sim =
  sim_gates :: "instr list"
  sim_release :: "(exn + unit) option"

subsection \<open>The external world\<close>

text \<open>
  What the collaborators answer. The three flags are the module-level results of the
  imports. \<open>CuQuantumSimulator w k nq\<close> is the constructor call made for slot \<open>k\<close>;
  \<open>QuantumRingsProvider w token name backend_name\<close> is the whole \<^verbatim>\<open>try\<close> block of the
  constructor (provider, \<^verbatim>\<open>active_account\<close>, \<^verbatim>\<open>get_backend\<close>); \<open>lib_BackendV2\<close> is the
  library's class \<^verbatim>\<open>BackendV2\<close>; \<open>new_Linear w k\<close> gives the initial weight and bias of
  the \<open>k\<close>-th \<^verbatim>\<open>nn.Linear\<close>.

  The first argument of \<open>lib_run\<close>, \<open>measure_shots\<close>, \<open>time_time\<close> and \<open>rng\<close> is the
  batch item being processed: \<open>time_time w i k\<close> is the \<open>k\<close>-th reading of
  \<^verbatim>\<open>time.time()\<close> taken for item \<open>i\<close>, \<open>rng w i\<close> the sample stream of the
  \<^verbatim>\<open>torch.randn\<close> call made for item \<open>i\<close> (0 for a whole batch).
  \<open>to_gate_exn\<close> and \<open>remap_exn\<close> say whether Qiskit's \<^verbatim>\<open>to_gate\<close>/\<^verbatim>\<open>append\<close> of a
  blueprint, and the re-appending of one instruction, raise.
\<close>

record world =
  HAS_QISKIT :: bool
  HAS_QUANTUM_RINGS :: bool
  HAS_CUQUANTUM :: bool
  CuQuantumSimulator :: "nat \<Rightarrow> nat \<Rightarrow> exn + sim"
  AerSimulator :: "exn + backend"
  QuantumRingsProvider :: "string \<Rightarrow> string \<Rightarrow> string \<Rightarrow> exn + backend option"
  lib_BackendV2 :: "nat \<Rightarrow> exn + backend"
  new_Linear :: "nat \<Rightarrow> (nat \<Rightarrow> nat \<Rightarrow> real) \<times> (nat \<Rightarrow> real)"
  to_gate_exn :: "circuit \<Rightarrow> exn option"
  remap_exn :: "instr \<Rightarrow> exn option"
  transpile :: "circuit \<Rightarrow> exn + circuit"
  lib_run :: "nat \<Rightarrow> string \<Rightarrow> circuit \<Rightarrow> int \<Rightarrow> exn + job"
  measure_shots :: "nat \<Rightarrow> nat \<Rightarrow> instr list \<Rightarrow> nat list \<Rightarrow> int \<Rightarrow> exn + counts"
  time_time :: "nat \<Rightarrow> nat \<Rightarrow> real"
  rng :: "nat \<Rightarrow> nat \<Rightarrow> real"

text \<open>\<^verbatim>\<open>backend.run(tqc, shots=shots)\<close>; the dummy backend returns a \<^verbatim>\<open>DummyJob\<close>.\<close>

fun backend_run :: "world \<Rightarrow> nat \<Rightarrow> backend \<Rightarrow> circuit \<Rightarrow> int \<Rightarrow> exn + job" where
  "backend_run w i (Dummy_BackendV2 n) tqc shots = Inr (DummyJob tqc shots)"
| "backend_run w i (Lib_backend nm) tqc shots = lib_run w i nm tqc shots"

text \<open>
  The name \<^verbatim>\<open>BackendV2\<close>: the dummy class of the source when QuantumRingsLib could not
  be imported, the library's class otherwise.
\<close>

definition BackendV2 :: "world \<Rightarrow> nat \<Rightarrow> exn + backend" where
  "BackendV2 w nq =
     (if HAS_QUANTUM_RINGS w then lib_BackendV2 w nq else Inr (Dummy_BackendV2 nq))"

subsection \<open>The cell and its constructor\<close>

record cell =
  num_qubits :: nat
  memory_depth :: nat
  classical_hidden_size :: nat
  job_poll_interval :: real
  job_timeout :: real
  backend_mode :: string
  gpu_simulators :: "sim list option"
  backend :: "backend option"
  encoding_weight :: "nat \<Rightarrow> nat \<Rightarrow> real"
  encoding_bias :: "nat \<Rightarrow> real"
  decoding_weight :: "nat \<Rightarrow> nat \<Rightarrow> real"
  decoding_bias :: "nat \<Rightarrow> real"
  quantum_memory_states :: "circuit option list"

text \<open>Python truthiness of an optional string: \<^verbatim>\<open>None\<close> and \<^verbatim>\<open>''\<close> are false.\<close>

fun truthy :: "string option \<Rightarrow> bool" where
  "truthy None = False"
| "truthy (Some s) = (s \<noteq> [])"

text \<open>
  \<^verbatim>\<open>[CuQuantumSimulator(self.num_qubits) for _ in range(self.memory_depth)]\<close>: the first
  constructor that raises ends the comprehension.
\<close>

fun new_simulators :: "world \<Rightarrow> nat \<Rightarrow> nat list \<Rightarrow> exn + sim list" where
  "new_simulators w nq [] = Inr []"
| "new_simulators w nq (k # ks) =
     (case CuQuantumSimulator w k nq of
        Inl e \<Rightarrow> Inl e
      | Inr s \<Rightarrow> (case new_simulators w nq ks of Inl e \<Rightarrow> Inl e | Inr ss \<Rightarrow> Inr (s # ss)))"

text \<open>
  The branch on \<^verbatim>\<open>backend_mode\<close> of \<^verbatim>\<open>__init__\<close>: it gives \<^verbatim>\<open>self.gpu_simulators\<close> and
  \<^verbatim>\<open>self.backend\<close>, or raises.
\<close>

definition select_backend ::
  "world \<Rightarrow> nat \<Rightarrow> nat \<Rightarrow> string \<Rightarrow> string option \<Rightarrow> string option \<Rightarrow> string
     \<Rightarrow> exn + (sim list option \<times> backend option)" where
  "select_backend w nq depth mode qr_token qr_user_name qr_backend_name =
     (if mode = ''gpu'' then
        (if HAS_CUQUANTUM w then
           (case new_simulators w nq [0..<depth] of
              Inl e \<Rightarrow> Inl e
            | Inr sims \<Rightarrow> Inr (Some sims, None))
         else Inl CuQuantum_not_found)
      else if mode = ''qr-cloud'' then
        (if HAS_QUANTUM_RINGS w \<and> truthy qr_token \<and> truthy qr_user_name then
           (case QuantumRingsProvider w (case_option [] id qr_token)
                   (case_option [] id qr_user_name) qr_backend_name of
              Inr b \<Rightarrow> Inr (None, b)
            | Inl e \<Rightarrow> (case BackendV2 w nq of Inl e' \<Rightarrow> Inl e' | Inr b \<Rightarrow> Inr (None, Some b)))
         else (case BackendV2 w nq of Inl e' \<Rightarrow> Inl e' | Inr b \<Rightarrow> Inr (None, Some b)))
      else if mode = ''cpu-qiskit'' then
        (if HAS_QISKIT w then
           (case AerSimulator w of Inl e \<Rightarrow> Inl e | Inr b \<Rightarrow> Inr (None, Some b))
         else Inl AerSimulator_not_found)
      else Inl (Unsupported_backend_mode mode))"

text \<open>\<^verbatim>\<open>QuantumMemoryCell.__init__\<close>.\<close>

definition QuantumMemoryCell_init ::
  "world \<Rightarrow> nat \<Rightarrow> nat \<Rightarrow> nat \<Rightarrow> string \<Rightarrow> string option \<Rightarrow> string option \<Rightarrow> string
     \<Rightarrow> real \<Rightarrow> real \<Rightarrow> exn + cell" where
  "QuantumMemoryCell_init w nq depth hidden mode qr_token qr_user_name qr_backend_name
       poll_interval timeout =
     (if \<not> HAS_QISKIT w \<and> mode \<noteq> ''gpu'' then Inl Qiskit_required
      else
        (case select_backend w nq depth mode qr_token qr_user_name qr_backend_name of
           Inl e \<Rightarrow> Inl e
         | Inr (sims, b) \<Rightarrow>
             Inr \<lparr>num_qubits = nq, memory_depth = depth, classical_hidden_size = hidden,
                  job_poll_interval = poll_interval, job_timeout = timeout,
                  backend_mode = mode, gpu_simulators = sims, backend = b,
                  encoding_weight = fst (new_Linear w 0), encoding_bias = snd (new_Linear w 0),
                  decoding_weight = fst (new_Linear w 1), decoding_bias = snd (new_Linear w 1),
                  quantum_memory_states = replicate depth None\<rparr>))"

subsection \<open>Teardown\<close>

datatype event =
    Print_backend_unavailable string
  | Print_gpu_unavailable
  | Print_no_blueprint int string
  | Print_gate_warning exn
  | Print_item_error nat int string exn
  | Print_released
  | Call_transpile nat
  | Call_run nat circuit int
  | Call_measure_shots nat nat "nat list" int
  | Call_release nat

text \<open>
  The loop of \<^verbatim>\<open>__del__\<close> from simulator \<open>k\<close> on: \<^verbatim>\<open>release()\<close> is called on a simulator
  that has a callable \<^verbatim>\<open>release\<close>; an exception leaves the loop.
\<close>

fun release_loop :: "nat \<Rightarrow> sim list \<Rightarrow> event list \<times> exn option" where
  "release_loop k [] = ([Print_released], None)"
| "release_loop k (s # rest) =
     (case sim_release s of
        None \<Rightarrow> release_loop (Suc k) rest
      | Some (Inl e) \<Rightarrow> ([Call_release k], Some e)
      | Some (Inr u) \<Rightarrow>
          (case release_loop (Suc k) rest of (evs, r) \<Rightarrow> (Call_release k # evs, r)))"

text \<open>\<^verbatim>\<open>QuantumMemoryCell.__del__\<close>; a list is truthy when it is not empty.\<close>

definition QuantumMemoryCell_del :: "cell \<Rightarrow> event list \<times> exn option" where
  "QuantumMemoryCell_del c =
     (case gpu_simulators c of
        Some (s # rest) \<Rightarrow>
          if backend_mode c = ''gpu'' then release_loop 0 (s # rest) else ([], None)
      | _ \<Rightarrow> ([], None))"

subsection \<open>Writing\<close>

text \<open>
  \<^verbatim>\<open>a.view(r, c)\<close> of a tensor with \<open>r * c\<close> entries, and the product with a scalar.
\<close>

definition view :: "tensor \<Rightarrow> nat \<Rightarrow> nat \<Rightarrow> tensor" where
  "view a r c =
     \<lparr>dim0 = r, dim1 = c,
      rows = map (\<lambda>i. map (\<lambda>j. concat (rows a) ! (i * c + j)) [0..<c]) [0..<r]\<rparr>"

definition scale :: "real \<Rightarrow> tensor \<Rightarrow> tensor" where
  "scale k a = a\<lparr>rows := map (map (\<lambda>x. x * k)) (rows a)\<rparr>"

text \<open>
  \<^verbatim>\<open>_get_angles_single\<close>. The argument is two-dimensional by its type; the linear layer
  gives \<open>1 * (num_qubits * 2)\<close> entries, which is what the view needs.
\<close>

definition get_angles_single :: "cell \<Rightarrow> tensor \<Rightarrow> exn + tensor" where
  "get_angles_single c x =
     (if dim0 x \<noteq> 1 then Inl Angles_shape
      else
        (case nn_Linear (classical_hidden_size c) (num_qubits c * 2)
                (encoding_weight c) (encoding_bias c) x of
           Inl e \<Rightarrow> Inl e
         | Inr angles \<Rightarrow> Inr (scale pi (view angles (num_qubits c) 2))))"

text \<open>The two rotations per qubit of the inner loop of \<^verbatim>\<open>write\<close>.\<close>

definition rotations :: "nat \<Rightarrow> tensor \<Rightarrow> instr list" where
  "rotations nq angles =
     concat (map (\<lambda>q_idx. [Ry (rows angles ! q_idx ! 0) q_idx, Rz (rows angles ! q_idx ! 1) q_idx])
               [0..<nq])"

definition item_tag :: "nat \<Rightarrow> int \<Rightarrow> string" where
  "item_tag i slot_idx = ''b'' @ str_nat i @ ''_s'' @ str_int slot_idx"

definition make_blueprint :: "nat \<Rightarrow> nat \<Rightarrow> int \<Rightarrow> tensor \<Rightarrow> circuit" where
  "make_blueprint nq i slot_idx angles =
     \<lparr>circ_name = ''qmem_'' @ item_tag i slot_idx,
      qregs = [(''q_'' @ item_tag i slot_idx, nq)], cregs = [],
      data = rotations nq angles\<rparr>"

text \<open>
  One iteration of the loop of \<^verbatim>\<open>write\<close>. The result is the cell as the iteration leaves
  it and the exception it raised, if any. Indexing \<^verbatim>\<open>None\<close> or past the end of a list
  raises.
\<close>

definition write_item :: "cell \<Rightarrow> nat \<Rightarrow> real list \<Rightarrow> int \<Rightarrow> cell \<times> exn option" where
  "write_item c i hidden slot_idx =
     (if \<not> (0 \<le> slot_idx \<and> slot_idx < int (memory_depth c))
      then (c, Some (Slot_out_of_bounds slot_idx i))
      else
        (case get_angles_single c (unsqueeze0 hidden) of
           Inl e \<Rightarrow> (c, Some e)
         | Inr angles \<Rightarrow>
             if backend_mode c = ''gpu'' then
               (case gpu_simulators c of
                  None \<Rightarrow> (c, Some None_not_subscriptable)
                | Some sims \<Rightarrow>
                    if length sims \<le> nat slot_idx then (c, Some Index_error)
                    else
                      (let c1 = c\<lparr>gpu_simulators :=
                                   Some (sims[nat slot_idx :=
                                     (sims ! nat slot_idx)\<lparr>sim_gates :=
                                        rotations (num_qubits c) angles\<rparr>])\<rparr>
                       in if length (quantum_memory_states c) \<le> nat slot_idx
                          then (c1, Some Index_error)
                          else (c1\<lparr>quantum_memory_states :=
                                    (quantum_memory_states c)[nat slot_idx := None]\<rparr>, None)))
             else if length (quantum_memory_states c) \<le> nat slot_idx
               then (c, Some Index_error)
               else (c\<lparr>quantum_memory_states :=
                        (quantum_memory_states c)[nat slot_idx :=
                           Some (make_blueprint (num_qubits c) i slot_idx angles)]\<rparr>, None)))"

fun write_items :: "cell \<Rightarrow> nat \<Rightarrow> (real list \<times> int) list \<Rightarrow> cell \<times> exn option" where
  "write_items c i [] = (c, None)"
| "write_items c i ((hidden, slot_idx) # rest) =
     (case write_item c i hidden slot_idx of
        (c', Some e) \<Rightarrow> (c', Some e)
      | (c', None) \<Rightarrow> write_items c' (Suc i) rest)"

text \<open>
  The slot argument of \<^verbatim>\<open>write\<close> and \<^verbatim>\<open>read\<close>: one \<^verbatim>\<open>int\<close>, or a list or
  one-dimensional tensor of them.
\<close>

datatype slot_indices = Scalar int | Batch "int list"

text \<open>
  \<^verbatim>\<open>torch.tensor\<close> of a list of Python integers is a tensor of 64-bit integers; an
  integer that does not fit raises. (The entries of an argument that is a tensor
  already fit.)
\<close>

definition fits_int64 :: "int \<Rightarrow> bool" where
  "fits_int64 x = (- (2 ^ 63) \<le> x \<and> x < 2 ^ 63)"

definition torch_tensor :: "int list \<Rightarrow> exn + int list" where
  "torch_tensor xs = (if list_all fits_int64 xs then Inr xs else Inl Tensor_overflow)"

text \<open>
  \<^verbatim>\<open>write\<close>: the batch is the list of its rows; a scalar slot index is repeated
  \<^verbatim>\<open>batch_size\<close> times. The slot indices become a tensor before the lengths are
  compared and before the loop.
\<close>

definition QuantumMemoryCell_write :: "cell \<Rightarrow> real list list \<Rightarrow> slot_indices \<Rightarrow> cell \<times> exn option" where
  "QuantumMemoryCell_write c classical_hidden_state_batch memory_slot_indices_batch =
     (let batch_size = length classical_hidden_state_batch
      in case torch_tensor (case memory_slot_indices_batch of
                              Scalar n \<Rightarrow> replicate batch_size n
                            | Batch xs \<Rightarrow> xs) of
           Inl e \<Rightarrow> (c, Some e)
         | Inr idxs \<Rightarrow>
             if length idxs \<noteq> batch_size then (c, Some Batch_length_mismatch)
             else write_items c 0 (zip classical_hidden_state_batch idxs))"

subsection \<open>Reading\<close>

text \<open>
  The rebuilding loop of the \<^verbatim>\<open>except\<close> branch: every instruction of the blueprint is
  appended again; the first one that raises ends the loop.
\<close>

fun rebuild :: "world \<Rightarrow> instr list \<Rightarrow> exn + instr list" where
  "rebuild w [] = Inr []"
| "rebuild w (op # ops) =
     (case remap_exn w op of
        Some e \<Rightarrow> Inl e
      | None \<Rightarrow> (case rebuild w ops of Inl e \<Rightarrow> Inl e | Inr r \<Rightarrow> Inr (op # r)))"

definition empty_blueprint :: "nat \<Rightarrow> nat \<Rightarrow> int \<Rightarrow> circuit" where
  "empty_blueprint nq i slot_idx =
     \<lparr>circ_name = ''qmem_empty_'' @ item_tag i slot_idx,
      qregs = [(''q_empty_'' @ item_tag i slot_idx, nq)], cregs = [], data = []\<rparr>"

text \<open>
  The measurement circuit: the registers, the blueprint's operations (as one gate, or
  rebuilt when \<^verbatim>\<open>to_gate\<close>/\<^verbatim>\<open>append\<close> raised), and the measurement of every qubit. An
  exception of the rebuilding loop is raised outside any \<^verbatim>\<open>try\<close>.
\<close>

definition assemble ::
  "world \<Rightarrow> nat \<Rightarrow> nat \<Rightarrow> int \<Rightarrow> circuit \<Rightarrow> event list \<times> (exn + circuit)" where
  "assemble w nq i slot_idx qc_blueprint =
     (let measurement_qc =
            \<lparr>circ_name = circ_name qc_blueprint @ ''_meas'',
             qregs = [(''q_meas_'' @ item_tag i slot_idx, nq)],
             cregs = [(''c_meas_'' @ item_tag i slot_idx, nq)], data = []\<rparr>;
          measure = [Measure [0..<nq] [0..<nq]]
      in if HAS_QISKIT w then
           (case to_gate_exn w qc_blueprint of
              None \<Rightarrow>
                ([], Inr (measurement_qc\<lparr>data :=
                      Gate (''bp_'' @ item_tag i slot_idx) (data qc_blueprint) [0..<nq] # measure\<rparr>))
            | Some e_gate \<Rightarrow>
                (case rebuild w (data qc_blueprint) of
                   Inl e \<Rightarrow> ([Print_gate_warning e_gate], Inl e)
                 | Inr ops \<Rightarrow>
                     ([Print_gate_warning e_gate], Inr (measurement_qc\<lparr>data := ops @ measure\<rparr>))))
         else ([], Inr (measurement_qc\<lparr>data := measure\<rparr>)))"

text \<open>
  The polling loop of \<^verbatim>\<open>read\<close>, at its \<open>k\<close>-th iteration (from 0). \<open>clock 0\<close> is
  \<^verbatim>\<open>start_time\<close> and \<open>clock (Suc k)\<close> the reading of \<^verbatim>\<open>time.time()\<close> in iteration \<open>k\<close>;
  \<^verbatim>\<open>time.sleep\<close> raises on a negative interval. The status is compared with the three
  strings \<^verbatim>\<open>JobStatus.DONE\<close>, \<^verbatim>\<open>JobStatus.ERROR\<close> and \<^verbatim>\<open>JobStatus.CANCELLED\<close> of the
  source's class. The loop need not end: the result is
  \<open>None\<close> when it runs forever, otherwise the exception raised or the terminal status
  with the number of calls of \<^verbatim>\<open>status()\<close> made.
\<close>

partial_function (option) poll ::
  "(nat \<Rightarrow> exn + status_value) \<Rightarrow> (nat \<Rightarrow> real) \<Rightarrow> real \<Rightarrow> real \<Rightarrow> nat \<Rightarrow> int \<Rightarrow> nat
     \<Rightarrow> (exn + status_value \<times> nat) option" where
  "poll status clock timeout interval i slot_idx k =
     (case status k of
        Inl e \<Rightarrow> Some (Inl e)
      | Inr st \<Rightarrow>
          if st = Str DONE \<or> st = Str ERROR \<or> st = Str CANCELLED
          then Some (Inr (st, Suc k))
          else if clock (Suc k) - clock 0 > timeout
            then Some (Inl (Job_timed_out i slot_idx st))
          else if interval < 0 then Some (Inl Sleep_negative)
          else poll status clock timeout interval i slot_idx (Suc k))"

declare poll.simps [code]

text \<open>
  The body of the \<^verbatim>\<open>try\<close> of \<^verbatim>\<open>read\<close>: transpilation (\<^verbatim>\<open>cpu-qiskit\<close> only), submission,
  polling (\<^verbatim>\<open>qr-cloud\<close> only) and the fetching of the counts. \<open>Inl e\<close> is the exception
  the \<^verbatim>\<open>except\<close> clause catches.
\<close>

definition execute ::
  "world \<Rightarrow> cell \<Rightarrow> int \<Rightarrow> nat \<Rightarrow> int \<Rightarrow> circuit \<Rightarrow> (event list \<times> (exn + counts)) option" where
  "execute w c shots i slot_idx measurement_qc =
     (let evt = (if backend_mode c = ''cpu-qiskit'' then [Call_transpile i] else [])
      in case (if backend_mode c = ''cpu-qiskit'' then transpile w measurement_qc
               else Inr measurement_qc) of
           Inl e \<Rightarrow> Some (evt, Inl e)
         | Inr tqc \<Rightarrow>
             (case backend c of
                None \<Rightarrow> Some (evt, Inl Attribute_error)
              | Some b \<Rightarrow>
                  (case backend_run w i b tqc shots of
                     Inl e \<Rightarrow> Some (evt @ [Call_run i tqc shots], Inl e)
                   | Inr job \<Rightarrow>
                       if backend_mode c = ''qr-cloud'' then
                         (case poll (job_status job) (time_time w i) (job_timeout c)
                                 (job_poll_interval c) i slot_idx 0 of
                            None \<Rightarrow> None
                          | Some (Inl e) \<Rightarrow> Some (evt @ [Call_run i tqc shots], Inl e)
                          | Some (Inr (status, n)) \<Rightarrow>
                              if status \<noteq> Str DONE
                              then Some (evt @ [Call_run i tqc shots],
                                         Inl (Job_failed i slot_idx status))
                              else Some (evt @ [Call_run i tqc shots], job_result_counts job n))
                       else Some (evt @ [Call_run i tqc shots], job_result_counts job 0))))"

text \<open>The counts become probabilities and go through \<^verbatim>\<open>decoding_linear\<close>.\<close>

definition decode_counts :: "cell \<Rightarrow> counts \<Rightarrow> int \<Rightarrow> exn + tensor" where
  "decode_counts c cnts shots =
     nn_Linear (num_qubits c) (classical_hidden_size c) (decoding_weight c) (decoding_bias c)
       (unsqueeze0 (process_counts (num_qubits c) cnts shots))"

text \<open>
  The blueprint of the slot, or the empty circuit with its warning when the slot holds
  \<^verbatim>\<open>None\<close>.
\<close>

definition lookup_blueprint :: "cell \<Rightarrow> nat \<Rightarrow> int \<Rightarrow> event list \<times> circuit" where
  "lookup_blueprint c i slot_idx =
     (case quantum_memory_states c ! nat slot_idx of
        None \<Rightarrow> ([Print_no_blueprint slot_idx (backend_mode c)],
                  empty_blueprint (num_qubits c) i slot_idx)
      | Some qc \<Rightarrow> ([], qc))"

text \<open>
  One iteration of the loop of \<^verbatim>\<open>read\<close>: \<open>None\<close> when the polling never ends, otherwise
  the diagnostics and backend calls made, with the exception that leaves \<^verbatim>\<open>read\<close> or
  the tensor appended to \<^verbatim>\<open>batch_outputs\<close>.
\<close>

definition read_item ::
  "world \<Rightarrow> cell \<Rightarrow> int \<Rightarrow> nat \<Rightarrow> int \<Rightarrow> (event list \<times> (exn + tensor)) option" where
  "read_item w c shots i slot_idx =
     (if \<not> (0 \<le> slot_idx \<and> slot_idx < int (memory_depth c))
      then Some ([], Inl (Slot_out_of_bounds slot_idx i))
      else if backend_mode c = ''gpu'' then
        (case gpu_simulators c of
           None \<Rightarrow> Some ([], Inl None_not_subscriptable)
         | Some sims \<Rightarrow>
             if length sims \<le> nat slot_idx then Some ([], Inl Index_error)
             else
               (case measure_shots w i (nat slot_idx) (sim_gates (sims ! nat slot_idx))
                       [0..<num_qubits c] shots of
                  Inl e \<Rightarrow>
                    Some ([Call_measure_shots i (nat slot_idx) [0..<num_qubits c] shots], Inl e)
                | Inr cnts \<Rightarrow>
                    Some ([Call_measure_shots i (nat slot_idx) [0..<num_qubits c] shots],
                          decode_counts c cnts shots)))
      else if length (quantum_memory_states c) \<le> nat slot_idx then Some ([], Inl Index_error)
      else
        (case assemble w (num_qubits c) i slot_idx (snd (lookup_blueprint c i slot_idx)) of
           (ev1, Inl e) \<Rightarrow> Some (fst (lookup_blueprint c i slot_idx) @ ev1, Inl e)
         | (ev1, Inr measurement_qc) \<Rightarrow>
             (case execute w c shots i slot_idx measurement_qc of
                None \<Rightarrow> None
              | Some (ev2, Inl e) \<Rightarrow>
                  Some (fst (lookup_blueprint c i slot_idx) @ ev1 @ ev2
                          @ [Print_item_error i slot_idx (backend_mode c) e],
                        Inr (torch_randn (rng w i) 1 (classical_hidden_size c)))
              | Some (ev2, Inr cnts) \<Rightarrow>
                  Some (fst (lookup_blueprint c i slot_idx) @ ev1 @ ev2,
                        decode_counts c cnts shots))))"

text \<open>
  The loop of \<^verbatim>\<open>read\<close> from item \<open>i\<close> on, with \<^verbatim>\<open>batch_outputs\<close> so far, and the
  concatenation that ends it.
\<close>

fun read_loop ::
  "world \<Rightarrow> cell \<Rightarrow> int \<Rightarrow> nat \<Rightarrow> int list \<Rightarrow> tensor list
     \<Rightarrow> (event list \<times> (exn + tensor)) option" where
  "read_loop w c shots i [] batch_outputs =
     Some ([], if batch_outputs = [] then Inr (torch_empty 0 (classical_hidden_size c))
               else torch_cat batch_outputs)"
| "read_loop w c shots i (slot_idx # rest) batch_outputs =
     (case read_item w c shots i slot_idx of
        None \<Rightarrow> None
      | Some (ev, Inl e) \<Rightarrow> Some (ev, Inl e)
      | Some (ev, Inr t) \<Rightarrow>
          (case read_loop w c shots (Suc i) rest (batch_outputs @ [t]) of
             None \<Rightarrow> None
           | Some (ev', r) \<Rightarrow> Some (ev @ ev', r)))"

text \<open>
  \<^verbatim>\<open>read\<close>: a scalar slot index is a batch of one. The slot indices become a tensor
  first, before the backend is looked at.
\<close>

definition QuantumMemoryCell_read ::
  "world \<Rightarrow> cell \<Rightarrow> slot_indices \<Rightarrow> int \<Rightarrow> (event list \<times> (exn + tensor)) option" where
  "QuantumMemoryCell_read w c memory_slot_indices_batch shots =
     (case torch_tensor (case memory_slot_indices_batch of
                           Scalar n \<Rightarrow> [n]
                         | Batch xs \<Rightarrow> xs) of
        Inl e \<Rightarrow> Some ([], Inl e)
      | Inr idxs \<Rightarrow>
          (let batch_size = length idxs
           in if backend_mode c \<noteq> ''gpu'' \<and> backend c = None
              then Some ([Print_backend_unavailable (backend_mode c)],
                         Inr (torch_randn (rng w 0) batch_size (classical_hidden_size c)))
              else if backend_mode c = ''gpu'' \<and> gpu_simulators c = None
              then Some ([Print_gpu_unavailable],
                         Inr (torch_randn (rng w 0) batch_size (classical_hidden_size c)))
              else read_loop w c shots 0 idxs []))"

text \<open>The events that are calls of the backend, of a job or of a simulator.\<close>

fun is_backend_call :: "event \<Rightarrow> bool" where
  "is_backend_call (Call_transpile i) = True"
| "is_backend_call (Call_run i qc shots) = True"
| "is_backend_call (Call_measure_shots i s qs shots) = True"
| "is_backend_call (Call_release k) = True"
| "is_backend_call ev = False"

subsection \<open>Shapes and encodings\<close>

text \<open>A tensor of shape \<open>(n, h)\<close> whose rows agree with its shape.\<close>

definition shaped :: "nat \<Rightarrow> nat \<Rightarrow> tensor \<Rightarrow> bool" where
  "shaped n h t =
     (dim0 t = n \<and> dim1 t = h \<and> length (rows t) = n \<and> list_all (\<lambda>r. length r = h) (rows t))"

text \<open>\<^verbatim>\<open>memory_slot_indices_batch.numel()\<close> in \<^verbatim>\<open>read\<close>.\<close>

fun numel :: "slot_indices \<Rightarrow> nat" where
  "numel (Scalar n) = 1"
| "numel (Batch xs) = length xs"


text \<open>\<^verbatim>\<open>self.decoding_linear\<close> applied to one probability vector.\<close>

definition decoded :: "cell \<Rightarrow> real list \<Rightarrow> real list" where
  "decoded c probs =
     linear_row (num_qubits c) (classical_hidden_size c)
       (decoding_weight c) (decoding_bias c) probs"

subsection \<open>A concrete world and concrete cells\<close>

text \<open>
  A world in which every import succeeded and no collaborator raises: library jobs
  answer the member \<^verbatim>\<open>DONE\<close> of their library's enumeration at every poll and every shot
  measures all ones; the clock advances by five seconds per reading.
\<close>

definition quiet_world :: world where
  "quiet_world =
     \<lparr>HAS_QISKIT = True, HAS_QUANTUM_RINGS = True, HAS_CUQUANTUM = True,
      CuQuantumSimulator = (\<lambda>k nq. Inr \<lparr>sim_gates = [], sim_release = Some (Inr ())\<rparr>),
      AerSimulator = Inr (Lib_backend ''aer_simulator''),
      QuantumRingsProvider = (\<lambda>token name backend_name. Inr (Some (Lib_backend backend_name))),
      lib_BackendV2 = (\<lambda>nq. Inr (Lib_backend ''BackendV2'')),
      new_Linear = (\<lambda>k. (\<lambda>out inp. 1, \<lambda>out. 0)),
      to_gate_exn = (\<lambda>qc. None), remap_exn = (\<lambda>op. None),
      transpile = Inr,
      lib_run = (\<lambda>i nm qc shots.
         Inr (Lib_job (\<lambda>k. Inr ''DONE'')
                (\<lambda>n. Inr [(replicate (circ_num_qubits qc) CHR ''1'', shots)]))),
      measure_shots = (\<lambda>i slot gates qubits shots.
         Inr [(replicate (length qubits) CHR ''1'', shots)]),
      time_time = (\<lambda>i k. 5 * real k),
      rng = (\<lambda>i j. 0)\<rparr>"

text \<open>
  A cell of two qubits, three slots and hidden size four, as the constructor leaves it
  in \<open>quiet_world\<close>, for a mode other than \<^verbatim>\<open>gpu\<close> and for \<^verbatim>\<open>gpu\<close>.
\<close>

definition demo_cell :: "string \<Rightarrow> cell" where
  "demo_cell mode =
     \<lparr>num_qubits = 2, memory_depth = 3, classical_hidden_size = 4,
      job_poll_interval = 5, job_timeout = 12, backend_mode = mode,
      gpu_simulators = None, backend = Some (Lib_backend ''aer_simulator''),
      encoding_weight = (\<lambda>out inp. 1), encoding_bias = (\<lambda>out. 0),
      decoding_weight = (\<lambda>out inp. 1), decoding_bias = (\<lambda>out. 0),
      quantum_memory_states = [None, None, None]\<rparr>"

definition demo_sim :: sim where
  "demo_sim = \<lparr>sim_gates = [], sim_release = Some (Inr ())\<rparr>"

definition demo_gpu_cell :: cell where
  "demo_gpu_cell =
     (demo_cell ''gpu'')\<lparr>gpu_simulators := Some [demo_sim, demo_sim, demo_sim],
                         backend := None\<rparr>"

text \<open>
  Variations of \<open>quiet_world\<close>: a library job that answers the member \<^verbatim>\<open>ERROR\<close> of its
  library's enumeration at every poll and whose result cannot be fetched; a backend
  whose \<^verbatim>\<open>run\<close> raises for item 1 only; GPU simulators whose \<^verbatim>\<open>measure_shots\<close> raises for
  item 1 only; a Qiskit in which neither \<^verbatim>\<open>to_gate\<close> nor re-appending works.
\<close>

definition failed_job_world :: world where
  "failed_job_world =
     quiet_world\<lparr>lib_run := (\<lambda>i nm qc shots.
        Inr (Lib_job (\<lambda>k. Inr ''ERROR'') (\<lambda>n. Inl (External ''job failed''))))\<rparr>"

definition flaky_world :: world where
  "flaky_world =
     quiet_world\<lparr>lib_run := (\<lambda>i nm qc shots.
        if i = 1 then Inl (External ''backend down'')
        else Inr (Lib_job (\<lambda>k. Inr ''DONE'')
                    (\<lambda>n. Inr [(replicate (circ_num_qubits qc) CHR ''1'', shots)])))\<rparr>"

definition gpu_fault_world :: world where
  "gpu_fault_world =
     quiet_world\<lparr>measure_shots := (\<lambda>i slot gates qubits shots.
        if i = 1 then Inl (External ''device lost'')
        else Inr [(replicate (length qubits) CHR ''1'', shots)])\<rparr>"

definition broken_qiskit_world :: world where
  "broken_qiskit_world =
     quiet_world\<lparr>to_gate_exn := (\<lambda>qc. Some (External ''to_gate'')),
                 remap_exn := (\<lambda>op. Some (External ''no index''))\<rparr>"

text \<open>The cell \<open>demo_cell\<close> with a blueprint of two rotations in slot 1.\<close>

definition written_cell :: "string \<Rightarrow> cell" where
  "written_cell mode =
     (demo_cell mode)\<lparr>quantum_memory_states :=
        [None,
         Some \<lparr>circ_name = ''qmem_b0_s1'', qregs = [(''q_b0_s1'', 2)], cregs = [],
               data = [Ry 1 0, Rz 1 0, Ry 1 1, Rz 1 1]\<rparr>,
         None]\<rparr>"

section \<open>Probability computation\<close>

lemma process_counts_length: "length (process_counts nq cnts shots) = nq"
  by (simp add: process_counts_def)

text \<open>
  C8. If \<open>shots = 0\<close>, every per-qubit probability computed by \<^verbatim>\<open>read\<close> is \<open>0.0\<close>, for any
  counts table: the probability vector is the all-zero vector of length \<open>num_qubits\<close>,
  and it is this vector that goes through the decoder.
\<close>

theorem shots_zero_probs_all_zero:
  "process_counts nq cnts 0 = replicate nq 0
   \<and> decode_counts c cnts 0 =
       Inr \<lparr>dim0 = 1, dim1 = classical_hidden_size c,
            rows = [decoded c (replicate (num_qubits c) 0)]\<rparr>"
proof -
  have z: "process_counts n cnts 0 = replicate n 0" for n
    by (simp add: process_counts_def map_replicate_const)
  show ?thesis
    by (simp add: z decode_counts_def nn_Linear_def unsqueeze0_def decoded_def)
qed

theorem shots_zero_probs_all_zero_witness:
  "process_counts 2 [(''00'', 50), (''01'', 30), (''10'', 20)] 0 = [0, 0]
   \<and> decode_counts (demo_cell ''cpu-qiskit'') [(''00'', 50), (''01'', 30), (''10'', 20)] 0 =
       Inr \<lparr>dim0 = 1, dim1 = 4, rows = [[0, 0, 0, 0]]\<rparr>"
proof -
  have d: "decoded (demo_cell ''cpu-qiskit'') (replicate (num_qubits (demo_cell ''cpu-qiskit'')) 0)
            = [0, 0, 0, 0]"
    by (simp add: decoded_def linear_row_def demo_cell_def upt_conv_Cons numeral_2_eq_2)
  have h: "classical_hidden_size (demo_cell ''cpu-qiskit'') = 4" by (simp add: demo_cell_def)
  from shots_zero_probs_all_zero [of 2 "[(''00'', 50), (''01'', 30), (''10'', 20)]"
         "demo_cell ''cpu-qiskit''"]
  show ?thesis unfolding d h by (simp add: numeral_2_eq_2)
qed

text \<open>
  C2. With \<open>num_qubits = 2\<close>, the counts table \<^verbatim>\<open>{"00": 50, "01": 30, "10": 20}\<close> and
  \<open>shots = 100\<close>, the computation of \<^verbatim>\<open>read\<close>, which reads bit \<open>q\<close> from the rightmost
  end of each bitstring, gives qubit 0 the probability \<open>30/100 = 0.3\<close> (only \<^verbatim>\<open>"01"\<close> has
  a one at its rightmost position) and qubit 1 the probability \<open>20/100 = 0.2\<close>.
\<close>

theorem crafted_counts_probabilities:
  "process_counts 2 [(''00'', 50), (''01'', 30), (''10'', 20)] 100 = [3 / 10, 1 / 5]"
  by (simp add: process_counts_def numeral_2_eq_2)

text \<open>The probability of qubit 0 for that table is not \<open>(30 + 20)/100 = 0.5\<close>.\<close>

theorem crafted_counts_qubit0_not_half:
  "process_counts 2 [(''00'', 50), (''01'', 30), (''10'', 20)] 100 ! 0 \<noteq> (30 + 20) / 100"
  by (simp add: process_counts_def numeral_2_eq_2)

section \<open>Construction\<close>

text \<open>
  C3. Constructing a cell with an unsupported \<^verbatim>\<open>backend_mode\<close>, with \<^verbatim>\<open>gpu\<close> without
  cuQuantum, or with \<^verbatim>\<open>cpu-qiskit\<close> or \<^verbatim>\<open>qr-cloud\<close> without Qiskit raises at construction
  time. In \<^verbatim>\<open>qr-cloud\<close> mode with Qiskit present, a missing QuantumRingsLib does not
  raise: the cell is created with the dummy \<^verbatim>\<open>BackendV2\<close> of the source as its backend;
  and with QuantumRingsLib present but token or user name missing, the backend is
  whatever the library's \<^verbatim>\<open>BackendV2(None, num_qubits)\<close> gives.
\<close>

theorem init_configuration_errors:
  "(mode \<noteq> ''gpu'' \<and> mode \<noteq> ''qr-cloud'' \<and> mode \<noteq> ''cpu-qiskit'' \<longrightarrow>
      QuantumMemoryCell_init w nq depth hidden mode tok usr bn pint tout =
        Inl (if HAS_QISKIT w then Unsupported_backend_mode mode else Qiskit_required))
   \<and> (mode = ''gpu'' \<and> \<not> HAS_CUQUANTUM w \<longrightarrow>
      QuantumMemoryCell_init w nq depth hidden mode tok usr bn pint tout = Inl CuQuantum_not_found)
   \<and> ((mode = ''cpu-qiskit'' \<or> mode = ''qr-cloud'') \<and> \<not> HAS_QISKIT w \<longrightarrow>
      QuantumMemoryCell_init w nq depth hidden mode tok usr bn pint tout = Inl Qiskit_required)
   \<and> (mode = ''qr-cloud'' \<and> HAS_QISKIT w \<and> \<not> HAS_QUANTUM_RINGS w \<longrightarrow>
      (\<exists>c. QuantumMemoryCell_init w nq depth hidden mode tok usr bn pint tout = Inr c
           \<and> backend c = Some (Dummy_BackendV2 nq)))
   \<and> (mode = ''qr-cloud'' \<and> HAS_QISKIT w \<and> HAS_QUANTUM_RINGS w
        \<and> \<not> (truthy tok \<and> truthy usr) \<longrightarrow>
      (case lib_BackendV2 w nq of
         Inl e \<Rightarrow> QuantumMemoryCell_init w nq depth hidden mode tok usr bn pint tout = Inl e
       | Inr b \<Rightarrow>
           (\<exists>c. QuantumMemoryCell_init w nq depth hidden mode tok usr bn pint tout = Inr c
                \<and> backend c = Some b)))"
  by (auto simp: QuantumMemoryCell_init_def select_backend_def BackendV2_def split: sum.splits)

theorem init_configuration_errors_witness:
  "QuantumMemoryCell_init (quiet_world\<lparr>HAS_CUQUANTUM := False\<rparr>) 2 3 4 ''gpu'' None None
     ''scarlet_quantum_rings'' 5 300 = Inl CuQuantum_not_found
   \<and> QuantumMemoryCell_init quiet_world 2 3 4 ''tpu'' None None
     ''scarlet_quantum_rings'' 5 300 = Inl (Unsupported_backend_mode ''tpu'')
   \<and> QuantumMemoryCell_init (quiet_world\<lparr>HAS_QISKIT := False\<rparr>) 2 3 4 ''cpu-qiskit'' None None
     ''scarlet_quantum_rings'' 5 300 = Inl Qiskit_required"
  using init_configuration_errors
          [where mode = "''gpu''" and w = "quiet_world\<lparr>HAS_CUQUANTUM := False\<rparr>"
             and nq = 2 and depth = 3 and hidden = 4 and tok = None and usr = None
             and bn = "''scarlet_quantum_rings''" and pint = 5 and tout = 300]
        init_configuration_errors
          [where mode = "''tpu''" and w = quiet_world
             and nq = 2 and depth = 3 and hidden = 4 and tok = None and usr = None
             and bn = "''scarlet_quantum_rings''" and pint = 5 and tout = 300]
        init_configuration_errors
          [where mode = "''cpu-qiskit''" and w = "quiet_world\<lparr>HAS_QISKIT := False\<rparr>"
             and nq = 2 and depth = 3 and hidden = 4 and tok = None and usr = None
             and bn = "''scarlet_quantum_rings''" and pint = 5 and tout = 300]
  by (simp add: quiet_world_def)

text \<open>
  In \<^verbatim>\<open>qr-cloud\<close> mode with Qiskit installed, QuantumRingsLib absent and no credentials,
  construction does not raise: the cell comes with the dummy backend.
\<close>

theorem init_qr_cloud_dummy_backend:
  "QuantumMemoryCell_init (quiet_world\<lparr>HAS_QUANTUM_RINGS := False\<rparr>) 2 3 4 ''qr-cloud''
       None None ''scarlet_quantum_rings'' 5 300 =
     Inr ((demo_cell ''qr-cloud'')\<lparr>job_timeout := 300, backend := Some (Dummy_BackendV2 2)\<rparr>)"
  by (simp add: QuantumMemoryCell_init_def select_backend_def BackendV2_def quiet_world_def
        demo_cell_def numeral_3_eq_3)

section \<open>Teardown\<close>

lemma release_loop_ok:
  "\<forall>s\<in>set sims. \<forall>e. sim_release s \<noteq> Some (Inl e) \<Longrightarrow>
   release_loop k sims =
     (map (Call_release \<circ> fst) (filter (\<lambda>(j, s). sim_release s \<noteq> None) (enumerate k sims))
        @ [Print_released], None)"
proof (induction sims arbitrary: k)
  case Nil
  show ?case by simp
next
  case (Cons s sims)
  then show ?case
    by (cases "sim_release s") (auto split: sum.splits)
qed

lemma release_loop_fail:
  "\<forall>s\<in>set pre. \<forall>e. sim_release s \<noteq> Some (Inl e) \<Longrightarrow> sim_release s = Some (Inl e) \<Longrightarrow>
   release_loop k (pre @ s # post) =
     (map (Call_release \<circ> fst) (filter (\<lambda>(j, s). sim_release s \<noteq> None) (enumerate k pre))
        @ [Call_release (k + length pre)], Some e)"
proof (induction pre arbitrary: k)
  case Nil
  then show ?case by simp
next
  case (Cons p pre)
  then show ?case
    by (cases "sim_release p") (auto split: sum.splits)
qed

text \<open>
  C9. When a gpu-mode cell is discarded, \<^verbatim>\<open>release\<close> is called once, in slot order, on
  each per-slot simulator that has a callable \<^verbatim>\<open>release\<close>, as long as no release
  fails. The first failing release is not suppressed: its exception leaves \<^verbatim>\<open>__del__\<close>
  and the simulators after it are not released. When \<^verbatim>\<open>gpu_simulators\<close> is \<^verbatim>\<open>None\<close> or
  empty, nothing is released and teardown does not throw.
\<close>

theorem del_releases_until_first_failure:
  assumes "backend_mode c = ''gpu''"
  shows
    "(gpu_simulators c = Some sims \<and> sims \<noteq> []
        \<and> (\<forall>s\<in>set sims. \<forall>e. sim_release s \<noteq> Some (Inl e)) \<longrightarrow>
      QuantumMemoryCell_del c =
        (map (Call_release \<circ> fst)
             (filter (\<lambda>(j, s). sim_release s \<noteq> None) (enumerate 0 sims))
           @ [Print_released], None))
     \<and> (gpu_simulators c = Some (pre @ s # post)
        \<and> (\<forall>p\<in>set pre. \<forall>e. sim_release p \<noteq> Some (Inl e))
        \<and> sim_release s = Some (Inl e) \<longrightarrow>
      QuantumMemoryCell_del c =
        (map (Call_release \<circ> fst)
             (filter (\<lambda>(j, s). sim_release s \<noteq> None) (enumerate 0 pre))
           @ [Call_release (length pre)], Some e))
     \<and> (gpu_simulators c = None \<or> gpu_simulators c = Some [] \<longrightarrow>
      QuantumMemoryCell_del c = ([], None))"
proof (intro conjI impI)
  assume a: "gpu_simulators c = Some sims \<and> sims \<noteq> []
        \<and> (\<forall>s\<in>set sims. \<forall>e. sim_release s \<noteq> Some (Inl e))"
  then obtain x xs where "sims = x # xs" by (cases sims) auto
  with a assms release_loop_ok [of sims 0]
  show "QuantumMemoryCell_del c =
        (map (Call_release \<circ> fst)
             (filter (\<lambda>(j, s). sim_release s \<noteq> None) (enumerate 0 sims))
           @ [Print_released], None)"
    by (simp add: QuantumMemoryCell_del_def)
next
  assume a: "gpu_simulators c = Some (pre @ s # post)
        \<and> (\<forall>p\<in>set pre. \<forall>e. sim_release p \<noteq> Some (Inl e))
        \<and> sim_release s = Some (Inl e)"
  obtain x xs where "pre @ s # post = x # xs" by (cases pre) auto
  with a assms release_loop_fail [of pre s e 0 post]
  show "QuantumMemoryCell_del c =
        (map (Call_release \<circ> fst)
             (filter (\<lambda>(j, s). sim_release s \<noteq> None) (enumerate 0 pre))
           @ [Call_release (length pre)], Some e)"
    by (simp add: QuantumMemoryCell_del_def)
next
  assume "gpu_simulators c = None \<or> gpu_simulators c = Some []"
  then show "QuantumMemoryCell_del c = ([], None)"
    by (auto simp: QuantumMemoryCell_del_def)
qed

theorem del_releases_until_first_failure_witness:
  "backend_mode demo_gpu_cell = ''gpu''
   \<and> QuantumMemoryCell_del demo_gpu_cell =
       ([Call_release 0, Call_release 1, Call_release 2, Print_released], None)
   \<and> QuantumMemoryCell_del
       (demo_gpu_cell\<lparr>gpu_simulators :=
          Some [demo_sim, demo_sim\<lparr>sim_release := Some (Inl (External ''busy''))\<rparr>, demo_sim]\<rparr>)
     = ([Call_release 0, Call_release 1], Some (External ''busy''))"
proof -
  let ?bad = "demo_sim\<lparr>sim_release := Some (Inl (External ''busy''))\<rparr>"
  let ?c = "demo_gpu_cell\<lparr>gpu_simulators := Some ([demo_sim] @ ?bad # [demo_sim])\<rparr>"
  have m: "backend_mode demo_gpu_cell = ''gpu''" and m': "backend_mode ?c = ''gpu''"
    by (simp_all add: demo_gpu_cell_def demo_cell_def)
  have a: "gpu_simulators demo_gpu_cell = Some [demo_sim, demo_sim, demo_sim]
           \<and> [demo_sim, demo_sim, demo_sim] \<noteq> []
           \<and> (\<forall>s\<in>set [demo_sim, demo_sim, demo_sim]. \<forall>e. sim_release s \<noteq> Some (Inl e))"
    by (simp add: demo_gpu_cell_def demo_sim_def)
  have b: "gpu_simulators ?c = Some ([demo_sim] @ ?bad # [demo_sim])
           \<and> (\<forall>p\<in>set [demo_sim]. \<forall>e. sim_release p \<noteq> Some (Inl e))
           \<and> sim_release ?bad = Some (Inl (External ''busy''))"
    by (simp add: demo_sim_def)
  from del_releases_until_first_failure [OF m, where sims = "[demo_sim, demo_sim, demo_sim]"] a
  have 1: "QuantumMemoryCell_del demo_gpu_cell =
        (map (Call_release \<circ> fst)
             (filter (\<lambda>(j, s). sim_release s \<noteq> None) (enumerate 0 [demo_sim, demo_sim, demo_sim]))
           @ [Print_released], None)"
    by blast
  from del_releases_until_first_failure [OF m', where pre = "[demo_sim]" and s = ?bad
         and post = "[demo_sim]" and e = "External ''busy''"] b
  have 2: "QuantumMemoryCell_del ?c =
        (map (Call_release \<circ> fst)
             (filter (\<lambda>(j, s). sim_release s \<noteq> None) (enumerate 0 [demo_sim]))
           @ [Call_release (length [demo_sim])], Some (External ''busy''))"
    by blast
  from m 1 2 show ?thesis by (simp add: demo_sim_def)
qed

text \<open>
  Two simulators, the first of which fails to release: the exception leaves \<^verbatim>\<open>__del__\<close>
  and \<^verbatim>\<open>release\<close> is never called on the second.
\<close>

theorem del_failure_stops_release:
  "QuantumMemoryCell_del
     (demo_gpu_cell\<lparr>gpu_simulators :=
        Some [demo_sim\<lparr>sim_release := Some (Inl (External ''release failed''))\<rparr>, demo_sim]\<rparr>)
   = ([Call_release 0], Some (External ''release failed''))"
  by (simp add: QuantumMemoryCell_del_def demo_gpu_cell_def demo_cell_def demo_sim_def)

section \<open>Writing a slot\<close>

lemma nn_Linear_unsqueeze0:
  "length v = n_in \<Longrightarrow>
   nn_Linear n_in n_out wt b (unsqueeze0 v) =
     Inr \<lparr>dim0 = 1, dim1 = n_out, rows = [linear_row n_in n_out wt b v]\<rparr>"
  by (simp add: nn_Linear_def unsqueeze0_def)













section \<open>Shape of what is read\<close>

lemma decode_counts_eq:
  "decode_counts c cnts shots =
     Inr \<lparr>dim0 = 1, dim1 = classical_hidden_size c,
          rows = [decoded c (process_counts (num_qubits c) cnts shots)]\<rparr>"
  by (simp add: decode_counts_def decoded_def nn_Linear_unsqueeze0 process_counts_length)

lemma shaped_decoded:
  "shaped 1 (classical_hidden_size c)
     \<lparr>dim0 = 1, dim1 = classical_hidden_size c, rows = [decoded c p]\<rparr>"
  by (simp add: shaped_def decoded_def linear_row_def)

lemma shaped_randn: "shaped n h (torch_randn g n h)"
  by (simp add: shaped_def torch_randn_def list_all_iff)

lemma read_item_shaped:
  assumes "read_item w c shots i s = Some (ev, Inr t)"
  shows "shaped 1 (classical_hidden_size c) t"
  using assms shaped_decoded [of c] shaped_randn [of 1 "classical_hidden_size c"]
  by (auto simp: read_item_def decode_counts_eq split: if_splits option.splits sum.splits prod.splits)

lemma torch_cat_shaped:
  assumes "ts \<noteq> []" "list_all (shaped 1 h) ts"
  shows "\<exists>t. torch_cat ts = Inr t \<and> shaped (length ts) h t \<and> rows t = concat (map rows ts)"
proof -
  from assms(2) have d0: "sum_list (map dim0 ts) = length ts"
    by (induction ts) (auto simp: shaped_def)
  from assms(2) have len: "length (concat (map rows ts)) = length ts"
    by (induction ts) (auto simp: shaped_def)
  from assms(2) have all: "list_all (\<lambda>r. length r = h) (concat (map rows ts))"
    by (induction ts) (auto simp: shaped_def)
  from assms obtain t rest where ts: "ts = t # rest" by (cases ts) auto
  with assms(2) have same: "list_all (\<lambda>u. dim1 u = dim1 t) rest" and "dim1 t = h"
    by (auto simp: shaped_def list_all_iff)
  then show ?thesis
    using d0 len all by (simp add: torch_cat_def ts shaped_def)
qed

lemma read_loop_shaped:
  assumes "list_all (shaped 1 (classical_hidden_size c)) outs"
    and "read_loop w c shots i idxs outs = Some (ev, Inr t)"
  shows "shaped (length outs + length idxs) (classical_hidden_size c) t"
  using assms
proof (induction idxs arbitrary: i outs ev)
  case Nil
  show ?case
  proof (cases "outs = []")
    case True
    with Nil show ?thesis by (auto simp: torch_empty_def shaped_def)
  next
    case False
    with Nil torch_cat_shaped [OF False Nil.prems(1)] show ?thesis by auto
  qed
next
  case (Cons s idxs)
  from Cons.prems(2) obtain e1 t1 e2 where
    it: "read_item w c shots i s = Some (e1, Inr t1)"
    and lp: "read_loop w c shots (Suc i) idxs (outs @ [t1]) = Some (e2, Inr t)"
    by (auto split: option.splits sum.splits prod.splits)
  from read_item_shaped [OF it] Cons.prems(1)
  have "list_all (shaped 1 (classical_hidden_size c)) (outs @ [t1])" by simp
  from Cons.IH [OF this lp] show ?case by simp
qed

lemma read_unfold:
  "QuantumMemoryCell_read w c idx shots =
     (if \<not> list_all fits_int64 (case idx of Scalar n \<Rightarrow> [n] | Batch xs \<Rightarrow> xs)
      then Some ([], Inl Tensor_overflow)
      else if backend_mode c \<noteq> ''gpu'' \<and> backend c = None
      then Some ([Print_backend_unavailable (backend_mode c)],
                 Inr (torch_randn (rng w 0) (numel idx) (classical_hidden_size c)))
      else if backend_mode c = ''gpu'' \<and> gpu_simulators c = None
      then Some ([Print_gpu_unavailable],
                 Inr (torch_randn (rng w 0) (numel idx) (classical_hidden_size c)))
      else read_loop w c shots 0 (case idx of Scalar n \<Rightarrow> [n] | Batch xs \<Rightarrow> xs) [])"
  by (cases idx) (simp_all add: QuantumMemoryCell_read_def torch_tensor_def Let_def)

text \<open>
  C7. Every tensor returned by \<^verbatim>\<open>read\<close> has first dimension equal to the batch size and
  second dimension equal to \<^verbatim>\<open>classical_hidden_size\<close>, with rows to match, in every
  backend mode and whether items were decoded, fell back, or the whole backend was
  absent. \<^verbatim>\<open>read\<close> of an empty batch returns the empty tensor of shape
  \<open>(0, classical_hidden_size)\<close> and calls no backend.
\<close>

theorem read_shape:
  "(QuantumMemoryCell_read w c idx shots = Some (ev, Inr t) \<longrightarrow>
      shaped (numel idx) (classical_hidden_size c) t)
   \<and> (\<exists>evs. QuantumMemoryCell_read w c (Batch []) shots =
              Some (evs, Inr \<lparr>dim0 = 0, dim1 = classical_hidden_size c, rows = []\<rparr>)
           \<and> list_all (\<lambda>e. \<not> is_backend_call e) evs)"
proof (intro conjI impI)
  assume r: "QuantumMemoryCell_read w c idx shots = Some (ev, Inr t)"
  have n: "numel idx = length (case idx of Scalar n \<Rightarrow> [n] | Batch xs \<Rightarrow> xs)"
    by (cases idx) simp_all
  show "shaped (numel idx) (classical_hidden_size c) t"
  proof (cases "(backend_mode c \<noteq> ''gpu'' \<and> backend c = None)
                 \<or> (backend_mode c = ''gpu'' \<and> gpu_simulators c = None)")
    case True
    with r n show ?thesis
      by (auto simp: read_unfold shaped_randn split: if_splits)
  next
    case False
    with r have "read_loop w c shots 0 (case idx of Scalar n \<Rightarrow> [n] | Batch xs \<Rightarrow> xs) []
                   = Some (ev, Inr t)"
      by (auto simp: read_unfold split: if_splits)
    from read_loop_shaped [OF _ this] n show ?thesis by simp
  qed
next
  show "\<exists>evs. QuantumMemoryCell_read w c (Batch []) shots =
              Some (evs, Inr \<lparr>dim0 = 0, dim1 = classical_hidden_size c, rows = []\<rparr>)
           \<and> list_all (\<lambda>e. \<not> is_backend_call e) evs"
    by (simp add: read_unfold torch_randn_def torch_empty_def)
qed


theorem read_shape_witness:
  "QuantumMemoryCell_read quiet_world demo_gpu_cell (Batch [2, 1]) 100 =
     Some ([Call_measure_shots 0 2 [0, 1] 100, Call_measure_shots 1 1 [0, 1] 100],
           Inr \<lparr>dim0 = 2, dim1 = 4, rows = [[2, 2, 2, 2], [2, 2, 2, 2]]\<rparr>)
   \<and> shaped 2 4 \<lparr>dim0 = 2, dim1 = 4, rows = [[2, 2, 2, 2], [2, 2, 2, 2]]\<rparr>"
proof -
  have r: "QuantumMemoryCell_read quiet_world demo_gpu_cell (Batch [2, 1]) 100 =
     Some ([Call_measure_shots 0 2 [0, 1] 100, Call_measure_shots 1 1 [0, 1] 100],
           Inr \<lparr>dim0 = 2, dim1 = 4, rows = [[2, 2, 2, 2], [2, 2, 2, 2]]\<rparr>)"
    by code_simp
  have h: "classical_hidden_size demo_gpu_cell = 4"
    by (simp add: demo_gpu_cell_def demo_cell_def)
  have n: "numel (Batch [2, 1]) = 2" by simp
  from read_shape [where w = quiet_world and c = demo_gpu_cell and idx = "Batch [2, 1]"
         and shots = 100] r
  have "shaped (numel (Batch [2, 1])) (classical_hidden_size demo_gpu_cell)
          \<lparr>dim0 = 2, dim1 = 4, rows = [[2, 2, 2, 2], [2, 2, 2, 2]]\<rparr>"
    by blast
  then have "shaped 2 4 \<lparr>dim0 = 2, dim1 = 4, rows = [[2, 2, 2, 2], [2, 2, 2, 2]]\<rparr>"
    by (simp only: n h)
  with r show ?thesis by blast
qed

section \<open>Slot validation\<close>

lemma read_loop_stops_at_invalid:
  assumes "\<not> (0 \<le> s \<and> s < int (memory_depth c))"
    and "read_loop w c shots i pre outs = Some (ev, Inr t)"
  shows "read_loop w c shots i (pre @ s # post) outs =
           Some (ev, Inl (Slot_out_of_bounds s (i + length pre)))"
  using assms(2)
proof (induction pre arbitrary: i outs ev)
  case Nil
  then have "ev = []" by simp
  with assms(1) show ?case by (simp add: read_item_def)
next
  case (Cons x pre)
  from Cons.prems obtain e1 t1 e2 where
    it: "read_item w c shots i x = Some (e1, Inr t1)"
    and lp: "read_loop w c shots (Suc i) pre (outs @ [t1]) = Some (e2, Inr t)"
    and ev: "ev = e1 @ e2"
    by (auto split: option.splits sum.splits prod.splits)
  from Cons.IH [OF lp] it ev show ?case by simp
qed

lemma write_item_depth: "memory_depth (fst (write_item c i h s)) = memory_depth c"
  by (simp add: write_item_def Let_def split: sum.splits option.splits)

lemma write_items_stops_at_invalid:
  assumes "\<not> (0 \<le> s \<and> s < int (memory_depth c))"
    and "write_items c i ps = (c', None)"
  shows "write_items c i (ps @ (h, s) # qs) =
           (c', Some (Slot_out_of_bounds s (i + length ps)))"
  using assms
proof (induction ps arbitrary: c i)
  case Nil
  then show ?case by (simp add: write_item_def)
next
  case (Cons p ps)
  obtain hp sp where p: "p = (hp, sp)" by (cases p)
  from Cons.prems(2) p obtain c1 where
    it: "write_item c i hp sp = (c1, None)"
    and lp: "write_items c1 (Suc i) ps = (c', None)"
    by (auto split: prod.splits option.splits)
  from it write_item_depth [of c i hp sp] have "memory_depth c1 = memory_depth c" by simp
  with Cons.prems(1) have "\<not> (0 \<le> s \<and> s < int (memory_depth c1))" by simp
  from Cons.IH [OF this lp] it p show ?case by simp
qed

lemma write_unfold:
  "QuantumMemoryCell_write c hs (Batch xs) =
     (if \<not> list_all fits_int64 xs then (c, Some Tensor_overflow)
      else if length xs \<noteq> length hs then (c, Some Batch_length_mismatch)
      else write_items c 0 (zip hs xs))"
  by (simp add: QuantumMemoryCell_write_def torch_tensor_def Let_def)

text \<open>
  C4. Once the availability check of \<^verbatim>\<open>read\<close> and the batch-length check of \<^verbatim>\<open>write\<close>
  have passed (and every index is one that \<^verbatim>\<open>torch.tensor\<close> can hold), a slot index
  outside \<open>[0, memory_depth)\<close> raises the \<^verbatim>\<open>ValueError\<close> that names that slot and item. The
  check is made item by item inside the loop: the items before the first such index
  have been processed by then, with their backend calls, and no backend call is made
  for the failing item or for a later one, none at all when it is the first item.
  \<^verbatim>\<open>write\<close> leaves the cell as the items before left it.
\<close>

theorem slot_out_of_bounds_raises:
  assumes "\<not> (0 \<le> s \<and> s < int (memory_depth c))"
    and "fits_int64 s" and "list_all fits_int64 post"
  shows
    "(\<not> (backend_mode c \<noteq> ''gpu'' \<and> backend c = None)
        \<and> \<not> (backend_mode c = ''gpu'' \<and> gpu_simulators c = None)
        \<and> QuantumMemoryCell_read w c (Batch pre) shots = Some (ev, Inr t) \<longrightarrow>
      QuantumMemoryCell_read w c (Batch (pre @ s # post)) shots =
        Some (ev, Inl (Slot_out_of_bounds s (length pre))))
     \<and> (\<not> (backend_mode c \<noteq> ''gpu'' \<and> backend c = None)
        \<and> \<not> (backend_mode c = ''gpu'' \<and> gpu_simulators c = None) \<longrightarrow>
      QuantumMemoryCell_read w c (Batch (s # post)) shots =
        Some ([], Inl (Slot_out_of_bounds s 0))
      \<and> QuantumMemoryCell_read w c (Scalar s) shots =
        Some ([], Inl (Slot_out_of_bounds s 0)))
     \<and> (length hs = length pre \<and> length hs' = length post
        \<and> QuantumMemoryCell_write c hs (Batch pre) = (c', None) \<longrightarrow>
      QuantumMemoryCell_write c (hs @ h # hs') (Batch (pre @ s # post)) =
        (c', Some (Slot_out_of_bounds s (length pre))))"
proof (intro conjI impI)
  assume a: "\<not> (backend_mode c \<noteq> ''gpu'' \<and> backend c = None)
        \<and> \<not> (backend_mode c = ''gpu'' \<and> gpu_simulators c = None)
        \<and> QuantumMemoryCell_read w c (Batch pre) shots = Some (ev, Inr t)"
  then have f: "list_all fits_int64 pre"
    and lp: "read_loop w c shots 0 pre [] = Some (ev, Inr t)"
    by (auto simp: read_unfold split: if_splits)
  from read_loop_stops_at_invalid [OF assms(1) lp, of post] a f assms(2,3)
  show "QuantumMemoryCell_read w c (Batch (pre @ s # post)) shots =
        Some (ev, Inl (Slot_out_of_bounds s (length pre)))"
    by (auto simp: read_unfold)
next
  assume a: "\<not> (backend_mode c \<noteq> ''gpu'' \<and> backend c = None)
        \<and> \<not> (backend_mode c = ''gpu'' \<and> gpu_simulators c = None)"
  with assms show "QuantumMemoryCell_read w c (Batch (s # post)) shots =
        Some ([], Inl (Slot_out_of_bounds s 0))"
    by (auto simp: read_unfold read_item_def)
  from a assms show "QuantumMemoryCell_read w c (Scalar s) shots =
        Some ([], Inl (Slot_out_of_bounds s 0))"
    by (auto simp: read_unfold read_item_def)
next
  assume a: "length hs = length pre \<and> length hs' = length post
        \<and> QuantumMemoryCell_write c hs (Batch pre) = (c', None)"
  then have f: "list_all fits_int64 pre"
    and wi: "write_items c 0 (zip hs pre) = (c', None)"
    by (auto simp: write_unfold split: if_splits)
  from write_items_stops_at_invalid [OF assms(1) wi, of h "zip hs' post"] a f assms(2,3)
  show "QuantumMemoryCell_write c (hs @ h # hs') (Batch (pre @ s # post)) =
        (c', Some (Slot_out_of_bounds s (length pre)))"
    by (auto simp: write_unfold)
qed

theorem slot_out_of_bounds_raises_witness:
  "\<not> (0 \<le> (- 1 :: int) \<and> - 1 < int (memory_depth demo_gpu_cell))
   \<and> QuantumMemoryCell_read quiet_world demo_gpu_cell (Batch [0, - 1, 1]) 100 =
       Some ([Call_measure_shots 0 0 [0, 1] 100], Inl (Slot_out_of_bounds (- 1) 1))"
proof -
  have h: "\<not> (0 \<le> (- 1 :: int) \<and> - 1 < int (memory_depth demo_gpu_cell))"
    by simp
  have f: "fits_int64 (- 1)" "list_all fits_int64 [1]"
    by (simp_all add: fits_int64_def)
  have a: "\<not> (backend_mode demo_gpu_cell \<noteq> ''gpu'' \<and> backend demo_gpu_cell = None)
       \<and> \<not> (backend_mode demo_gpu_cell = ''gpu'' \<and> gpu_simulators demo_gpu_cell = None)"
    by (simp add: demo_gpu_cell_def demo_cell_def)
  have r: "QuantumMemoryCell_read quiet_world demo_gpu_cell (Batch [0]) 100 =
       Some ([Call_measure_shots 0 0 [0, 1] 100],
             Inr \<lparr>dim0 = 1, dim1 = 4, rows = [[2, 2, 2, 2]]\<rparr>)"
    by code_simp
  from slot_out_of_bounds_raises [OF h f, where w = quiet_world and pre = "[0]"
         and shots = 100 and ev = "[Call_measure_shots 0 0 [0, 1] 100]"
         and t = "\<lparr>dim0 = 1, dim1 = 4, rows = [[2, 2, 2, 2]]\<rparr>"] a r
  have "QuantumMemoryCell_read quiet_world demo_gpu_cell (Batch ([0] @ - 1 # [1])) 100 =
       Some ([Call_measure_shots 0 0 [0, 1] 100],
             Inl (Slot_out_of_bounds (- 1) (length [0::int])))"
    by blast
  with h show ?thesis by simp
qed

text \<open>
  A read of slots 2, 5 and 0 of a cell of three slots: the simulator of slot 2 is
  measured for item 0 before the error for item 1 is raised, so a backend call is
  made in the call that raises.
\<close>

theorem earlier_items_run_before_the_error:
  "QuantumMemoryCell_read quiet_world demo_gpu_cell (Batch [2, 5, 0]) 100 =
     Some ([Call_measure_shots 0 2 [0, 1] 100], Inl (Slot_out_of_bounds 5 1))
   \<and> is_backend_call (Call_measure_shots 0 2 [0, 1] 100)"
  by code_simp

section \<open>Reading one item through a job\<close>

lemma read_item_qiskit:
  assumes "backend_mode c \<noteq> ''gpu''" "0 \<le> s" "s < int (memory_depth c)"
    "length (quantum_memory_states c) = memory_depth c"
    "assemble w (num_qubits c) i s (snd (lookup_blueprint c i s)) = (ev1, Inr mqc)"
  shows "read_item w c shots i s =
     (case execute w c shots i s mqc of
        None \<Rightarrow> None
      | Some (ev2, Inl e) \<Rightarrow>
          Some (fst (lookup_blueprint c i s) @ ev1 @ ev2
                  @ [Print_item_error i s (backend_mode c) e],
                Inr (torch_randn (rng w i) 1 (classical_hidden_size c)))
      | Some (ev2, Inr cnts) \<Rightarrow>
          Some (fst (lookup_blueprint c i s) @ ev1 @ ev2,
                Inr \<lparr>dim0 = 1, dim1 = classical_hidden_size c,
                     rows = [decoded c (process_counts (num_qubits c) cnts shots)]\<rparr>))"
proof -
  have n: "\<not> length (quantum_memory_states c) \<le> nat s" using assms(2-4) by simp
  show ?thesis
    using assms(1-3,5) n
    by (simp add: read_item_def decode_counts_eq split: option.splits sum.splits prod.splits)
qed

lemma execute_qr_cloud:
  assumes "backend_mode c = ''qr-cloud''" "backend c = Some b"
    "backend_run w i b mqc shots = Inr job"
  shows "execute w c shots i s mqc =
     (case poll (job_status job) (time_time w i) (job_timeout c) (job_poll_interval c) i s 0 of
        None \<Rightarrow> None
      | Some (Inl e) \<Rightarrow> Some ([Call_run i mqc shots], Inl e)
      | Some (Inr (st, n)) \<Rightarrow>
          if st \<noteq> Str DONE then Some ([Call_run i mqc shots], Inl (Job_failed i s st))
          else Some ([Call_run i mqc shots], job_result_counts job n))"
  using assms by (simp add: execute_def split: option.splits sum.splits prod.splits)

text \<open>
  C5. A \<^verbatim>\<open>qr-cloud\<close> cell with \<^verbatim>\<open>job_timeout = 12\<close> and a poll interval of five seconds
  reads slot 1 through a library job. When the job answers the member \<^verbatim>\<open>ERROR\<close> of the
  library's enumeration at every poll, \<^verbatim>\<open>read\<close> does not stop polling at the first
  answer and raises no job-failure error carrying that status: it polls until the
  third reading of the clock, fifteen seconds after the start, and the item fails with
  the \<^verbatim>\<open>TimeoutError\<close>. When the job answers the member \<^verbatim>\<open>DONE\<close> and its counts are
  ready, the same happens and the counts are never fetched. In both cases the item is
  the fallback row.
\<close>

theorem library_status_never_terminal:
  "read_item failed_job_world (demo_cell ''qr-cloud'') 100 0 1 =
     Some ([Print_no_blueprint 1 ''qr-cloud'',
            Call_run 0
              \<lparr>circ_name = ''qmem_empty_b0_s1_meas'', qregs = [(''q_meas_b0_s1'', 2)],
               cregs = [(''c_meas_b0_s1'', 2)],
               data = [Gate ''bp_b0_s1'' [] [0, 1], Measure [0, 1] [0, 1]]\<rparr> 100,
            Print_item_error 0 1 ''qr-cloud'' (Job_timed_out 0 1 (Lib_enum ''ERROR''))],
           Inr \<lparr>dim0 = 1, dim1 = 4, rows = [[0, 0, 0, 0]]\<rparr>)
   \<and> read_item quiet_world (demo_cell ''qr-cloud'') 100 0 1 =
     Some ([Print_no_blueprint 1 ''qr-cloud'',
            Call_run 0
              \<lparr>circ_name = ''qmem_empty_b0_s1_meas'', qregs = [(''q_meas_b0_s1'', 2)],
               cregs = [(''c_meas_b0_s1'', 2)],
               data = [Gate ''bp_b0_s1'' [] [0, 1], Measure [0, 1] [0, 1]]\<rparr> 100,
            Print_item_error 0 1 ''qr-cloud'' (Job_timed_out 0 1 (Lib_enum ''DONE''))],
           Inr \<lparr>dim0 = 1, dim1 = 4, rows = [[0, 0, 0, 0]]\<rparr>)
   \<and> class_of (Job_timed_out 0 1 (Lib_enum ''ERROR'')) = TimeoutError"
  by code_simp

section \<open>Reading a slot that was never written\<close>






section \<open>Failures of single items\<close>

lemma read_loop_all_items:
  assumes "\<forall>k<length idxs. \<exists>ev t. read_item w c shots (i + k) (idxs ! k) = Some (ev, Inr t)"
  shows "\<exists>evs ts.
           read_loop w c shots i idxs outs =
             Some (evs, if outs @ ts = [] then Inr (torch_empty 0 (classical_hidden_size c))
                        else torch_cat (outs @ ts))
           \<and> length ts = length idxs
           \<and> (\<forall>k<length idxs. \<exists>ev. read_item w c shots (i + k) (idxs ! k) = Some (ev, Inr (ts ! k))
                                   \<and> set ev \<subseteq> set evs)"
  using assms
proof (induction idxs arbitrary: i outs)
  case Nil
  show ?case by simp
next
  case (Cons s idxs)
  from Cons.prems [rule_format, of 0] obtain e1 t1 where
    it: "read_item w c shots i s = Some (e1, Inr t1)" by auto
  have "\<forall>k<length idxs. \<exists>ev t. read_item w c shots (Suc i + k) (idxs ! k) = Some (ev, Inr t)"
    using Cons.prems [rule_format, of "Suc k" for k] by simp
  from Cons.IH [OF this, of "outs @ [t1]"] obtain evs ts where
    lp: "read_loop w c shots (Suc i) idxs (outs @ [t1]) =
           Some (evs, if (outs @ [t1]) @ ts = [] then Inr (torch_empty 0 (classical_hidden_size c))
                      else torch_cat ((outs @ [t1]) @ ts))"
    and len: "length ts = length idxs"
    and each: "\<forall>k<length idxs. \<exists>ev. read_item w c shots (Suc i + k) (idxs ! k) = Some (ev, Inr (ts ! k))
                                   \<and> set ev \<subseteq> set evs"
    by blast
  have each': "\<exists>ev. read_item w c shots (i + k) ((s # idxs) ! k) = Some (ev, Inr ((t1 # ts) ! k))
                   \<and> set ev \<subseteq> set (e1 @ evs)" if "k < length (s # idxs)" for k
  proof (cases k)
    case 0
    with it show ?thesis by simp
  next
    case (Suc j)
    with that have "j < length idxs" by simp
    from each [rule_format, OF this] Suc show ?thesis by auto
  qed
  show ?case
    apply (rule exI [of _ "e1 @ evs"], rule exI [of _ "t1 # ts"])
    using it lp len each' by simp
qed

lemma concat_single_rows:
  "list_all (\<lambda>t. length (rows t) = 1) ts \<Longrightarrow> k < length ts \<Longrightarrow>
     concat (map rows ts) ! k = rows (ts ! k) ! 0"
proof (induction ts arbitrary: k)
  case Nil
  then show ?case by simp
next
  case (Cons t ts)
  then obtain r where r: "rows t = [r]" by (cases "rows t") auto
  with Cons show ?case by (cases k) auto
qed


lemma randn_row: "rows (torch_randn g (Suc 0) h) ! 0 = map g [0..<h]"
  by (simp add: torch_randn_def)

text \<open>
  What the \<^verbatim>\<open>try\<close> block of the \<^verbatim>\<open>cpu-qiskit\<close> and \<^verbatim>\<open>qr-cloud\<close> branch does, when the
  backend handle is present, every slot index is in range, every measurement circuit
  is assembled and every polling loop ends: an exception raised while transpiling,
  submitting, polling or fetching the counts of one item is not propagated, a
  diagnostic is printed and that item's row is the \<^verbatim>\<open>torch.randn(1, H)\<close> fallback, while
  the row of every other item is decoded from that item's own counts.
\<close>

lemma read_isolates_execution_failures:
  assumes mode: "backend_mode c = ''cpu-qiskit'' \<or> backend_mode c = ''qr-cloud''"
    and be: "backend c \<noteq> None"
    and len: "length (quantum_memory_states c) = memory_depth c"
    and valid: "\<forall>s\<in>set idxs. 0 \<le> s \<and> s < int (memory_depth c)"
    and fits: "list_all fits_int64 idxs"
    and run: "\<forall>i<length idxs. \<exists>ev1 mqc.
                assemble w (num_qubits c) i (idxs ! i) (snd (lookup_blueprint c i (idxs ! i)))
                  = (ev1, Inr mqc)
                \<and> execute w c shots i (idxs ! i) mqc \<noteq> None"
  shows
    "\<exists>evs t.
       QuantumMemoryCell_read w c (Batch idxs) shots = Some (evs, Inr t)
       \<and> shaped (length idxs) (classical_hidden_size c) t
       \<and> (\<forall>i<length idxs. \<exists>ev1 mqc ev2 r.
             assemble w (num_qubits c) i (idxs ! i) (snd (lookup_blueprint c i (idxs ! i)))
               = (ev1, Inr mqc)
             \<and> execute w c shots i (idxs ! i) mqc = Some (ev2, r)
             \<and> rows t ! i =
                 (case r of
                    Inl e \<Rightarrow> map (rng w i) [0..<classical_hidden_size c]
                  | Inr cnts \<Rightarrow> decoded c (process_counts (num_qubits c) cnts shots))
             \<and> (\<forall>e. r = Inl e \<longrightarrow>
                   Print_item_error i (idxs ! i) (backend_mode c) e \<in> set evs))"
proof -
  let ?H = "classical_hidden_size c"
  from mode have m: "backend_mode c \<noteq> ''gpu''" by auto
  have item: "\<exists>ev1 mqc ev2 r ev.
        assemble w (num_qubits c) i (idxs ! i) (snd (lookup_blueprint c i (idxs ! i)))
          = (ev1, Inr mqc)
        \<and> execute w c shots i (idxs ! i) mqc = Some (ev2, r)
        \<and> read_item w c shots i (idxs ! i) =
            Some (ev, Inr (case r of
                             Inl e \<Rightarrow> torch_randn (rng w i) 1 ?H
                           | Inr cnts \<Rightarrow>
                               \<lparr>dim0 = 1, dim1 = ?H,
                                rows = [decoded c (process_counts (num_qubits c) cnts shots)]\<rparr>))
        \<and> (\<forall>e. r = Inl e \<longrightarrow> Print_item_error i (idxs ! i) (backend_mode c) e \<in> set ev)"
    if i: "i < length idxs" for i
  proof -
    from run i obtain ev1 mqc where
      a: "assemble w (num_qubits c) i (idxs ! i) (snd (lookup_blueprint c i (idxs ! i)))
            = (ev1, Inr mqc)"
      and ne: "execute w c shots i (idxs ! i) mqc \<noteq> None" by blast
    from ne obtain ev2 r where ex: "execute w c shots i (idxs ! i) mqc = Some (ev2, r)"
      by (cases "execute w c shots i (idxs ! i) mqc") auto
    from valid i have v: "0 \<le> idxs ! i" "idxs ! i < int (memory_depth c)" by auto
    note ri = read_item_qiskit [OF m v len a, of shots]
    show ?thesis
      using a ex by (cases r) (auto simp: ri)
  qed
  then have "\<forall>k<length idxs. \<exists>ev t. read_item w c shots (0 + k) (idxs ! k) = Some (ev, Inr t)"
    by (metis add_0)
  from read_loop_all_items [OF this, of "[]", unfolded append_Nil add_0] obtain evs ts where
    lp: "read_loop w c shots 0 idxs [] =
           Some (evs, if ts = [] then Inr (torch_empty 0 ?H) else torch_cat ts)"
    and lts: "length ts = length idxs"
    and each: "\<forall>k<length idxs. \<exists>ev. read_item w c shots k (idxs ! k) = Some (ev, Inr (ts ! k))
                                   \<and> set ev \<subseteq> set evs"
    by blast
  have sh: "list_all (shaped 1 ?H) ts"
    unfolding list_all_length
  proof (intro allI impI)
    fix k assume "k < length ts"
    with lts each obtain ev where "read_item w c shots k (idxs ! k) = Some (ev, Inr (ts ! k))"
      by auto
    then show "shaped 1 ?H (ts ! k)" by (rule read_item_shaped)
  qed
  then have one: "list_all (\<lambda>t. length (rows t) = 1) ts"
    by (simp add: list_all_iff shaped_def)
  have rd: "QuantumMemoryCell_read w c (Batch idxs) shots = read_loop w c shots 0 idxs []"
    using m be fits by (auto simp: read_unfold)
  obtain t where t: "(if ts = [] then Inr (torch_empty 0 ?H) else torch_cat ts) = Inr t"
    and st: "shaped (length ts) ?H t" and rt: "rows t = concat (map rows ts)"
  proof (cases "ts = []")
    case True
    show ?thesis
      by (rule that [of "torch_empty 0 ?H"]) (simp_all add: True torch_empty_def shaped_def)
  next
    case False
    from torch_cat_shaped [OF False sh] obtain t' where
      "torch_cat ts = Inr t'" "shaped (length ts) ?H t'" "rows t' = concat (map rows ts)"
      by blast
    with False show ?thesis by (intro that [of t']) simp_all
  qed
  have per: "\<exists>ev1 mqc ev2 r.
             assemble w (num_qubits c) i (idxs ! i) (snd (lookup_blueprint c i (idxs ! i)))
               = (ev1, Inr mqc)
             \<and> execute w c shots i (idxs ! i) mqc = Some (ev2, r)
             \<and> rows t ! i =
                 (case r of
                    Inl e \<Rightarrow> map (rng w i) [0..<?H]
                  | Inr cnts \<Rightarrow> decoded c (process_counts (num_qubits c) cnts shots))
             \<and> (\<forall>e. r = Inl e \<longrightarrow>
                   Print_item_error i (idxs ! i) (backend_mode c) e \<in> set evs)"
    if i: "i < length idxs" for i
  proof -
    from item [OF i] obtain ev1 mqc ev2 r ev where
      a: "assemble w (num_qubits c) i (idxs ! i) (snd (lookup_blueprint c i (idxs ! i)))
            = (ev1, Inr mqc)"
      and ex: "execute w c shots i (idxs ! i) mqc = Some (ev2, r)"
      and ri: "read_item w c shots i (idxs ! i) =
            Some (ev, Inr (case r of
                             Inl e \<Rightarrow> torch_randn (rng w i) 1 ?H
                           | Inr cnts \<Rightarrow>
                               \<lparr>dim0 = 1, dim1 = ?H,
                                rows = [decoded c (process_counts (num_qubits c) cnts shots)]\<rparr>))"
      and pr: "\<forall>e. r = Inl e \<longrightarrow> Print_item_error i (idxs ! i) (backend_mode c) e \<in> set ev"
      by blast
    from each i obtain ev' where
      ri': "read_item w c shots i (idxs ! i) = Some (ev', Inr (ts ! i))"
      and sub': "set ev' \<subseteq> set evs" by blast
    from ri ri' sub' have tsi: "ts ! i = (case r of
                             Inl e \<Rightarrow> torch_randn (rng w i) 1 ?H
                           | Inr cnts \<Rightarrow>
                               \<lparr>dim0 = 1, dim1 = ?H,
                                rows = [decoded c (process_counts (num_qubits c) cnts shots)]\<rparr>)"
      and sub: "set ev \<subseteq> set evs" by simp_all
    from i lts have "rows t ! i = rows (ts ! i) ! 0"
      by (simp add: rt concat_single_rows [OF one])
    also have "\<dots> = (case r of
                    Inl e \<Rightarrow> map (rng w i) [0..<?H]
                  | Inr cnts \<Rightarrow> decoded c (process_counts (num_qubits c) cnts shots))"
      by (cases r) (simp_all add: tsi randn_row)
    finally show ?thesis using a ex pr sub by blast
  qed
  from rd lp t have "QuantumMemoryCell_read w c (Batch idxs) shots = Some (evs, Inr t)" by simp
  with st lts per show ?thesis by auto
qed


lemma execute_returns:
  "backend_mode c \<noteq> ''qr-cloud'' \<Longrightarrow> execute w c shots i s mqc \<noteq> None"
  by (simp add: execute_def Let_def split: sum.splits option.splits)

lemma assemble_to_gate_ok:
  "HAS_QISKIT w \<Longrightarrow> to_gate_exn w bp = None \<Longrightarrow> \<exists>mqc. assemble w nq i s bp = ([], Inr mqc)"
  by (simp add: assemble_def Let_def)

lemma read_isolates_execution_failures_example:
  "map_option snd (QuantumMemoryCell_read flaky_world (demo_cell ''cpu-qiskit'') (Batch [0, 1, 2]) 100)
     = Some (Inr \<lparr>dim0 = 3, dim1 = 4, rows = [[2, 2, 2, 2], [0, 0, 0, 0], [2, 2, 2, 2]]\<rparr>)
   \<and> shaped 3 4 \<lparr>dim0 = 3, dim1 = 4, rows = [[2, 2, 2, 2], [0, 0, 0, 0], [2, 2, 2, 2]]\<rparr>"
proof -
  let ?c = "demo_cell ''cpu-qiskit''"
  let ?T = "\<lparr>dim0 = 3, dim1 = 4, rows = [[2, 2, 2, 2], [0, 0, 0, 0], [2, 2, 2, 2 :: real]]\<rparr>"
  have h1: "backend_mode ?c = ''cpu-qiskit'' \<or> backend_mode ?c = ''qr-cloud''"
    and h2: "backend ?c \<noteq> None"
    and h3: "length (quantum_memory_states ?c) = memory_depth ?c"
    and h4: "\<forall>s\<in>set [0, 1, 2]. 0 \<le> s \<and> s < int (memory_depth ?c)"
    and nq: "backend_mode ?c \<noteq> ''qr-cloud''"
    by (simp_all add: demo_cell_def)
  have f: "list_all fits_int64 [0, 1, 2]"
    by (simp add: fits_int64_def)
  have q: "HAS_QISKIT flaky_world" "to_gate_exn flaky_world bp = None" for bp
    by (simp_all add: flaky_world_def quiet_world_def)
  have h5: "\<forall>i<length [0, 1, 2 :: int]. \<exists>ev1 mqc.
                assemble flaky_world (num_qubits ?c) i ([0, 1, 2] ! i)
                    (snd (lookup_blueprint ?c i ([0, 1, 2] ! i)))
                  = (ev1, Inr mqc)
                \<and> execute flaky_world ?c 100 i ([0, 1, 2] ! i) mqc \<noteq> None"
    using assemble_to_gate_ok [OF q] execute_returns [OF nq] by blast
  from read_isolates_execution_failures [OF h1 h2 h3 h4 f h5] obtain evs t where
    r: "QuantumMemoryCell_read flaky_world ?c (Batch [0, 1, 2]) 100 = Some (evs, Inr t)"
    and s: "shaped (length [0, 1, 2 :: int]) (classical_hidden_size ?c) t"
    by blast
  have v: "map_option snd (QuantumMemoryCell_read flaky_world ?c (Batch [0, 1, 2]) 100)
             = Some (Inr ?T)"
    by code_simp
  with r have "t = ?T" by simp
  moreover have "classical_hidden_size ?c = 4" by (simp add: demo_cell_def)
  ultimately show ?thesis using s v by (simp add: numeral_3_eq_3)
qed

text \<open>
  C1. Two reads in which the exception of one item is not replaced by a fallback but
  leaves \<^verbatim>\<open>read\<close>, so that no tensor is returned and the items after it are not
  processed. In \<^verbatim>\<open>gpu\<close> mode, a read of slots 0, 1 and 2 in which \<^verbatim>\<open>measure_shots\<close> raises
  for item 1: the call of the simulator stands outside any \<^verbatim>\<open>try\<close>. In \<^verbatim>\<open>cpu-qiskit\<close>
  mode, a read of the written slot 1 in which \<^verbatim>\<open>to_gate\<close> raises: the rebuilding loop
  that is to recover from it raises in its turn, outside the \<^verbatim>\<open>try\<close> that follows.
\<close>

theorem uncaught_exceptions_leave_read:
  "QuantumMemoryCell_read gpu_fault_world demo_gpu_cell (Batch [0, 1, 2]) 100 =
     Some ([Call_measure_shots 0 0 [0, 1] 100, Call_measure_shots 1 1 [0, 1] 100],
           Inl (External ''device lost''))
   \<and> QuantumMemoryCell_read broken_qiskit_world (written_cell ''cpu-qiskit'') (Batch [1, 0]) 100 =
     Some ([Print_gate_warning (External ''to_gate'')], Inl (External ''no index''))"
  by code_simp


end
